theory Spec2Isabelle
  imports Complex_Main
begin

section \<open>Numbers and coercions\<close>

text \<open>
  The quotation tool is JavaScript. Its numbers are modelled exactly: a quantity or a
  tier bound is an \<open>int\<close>, a price, a fee or an exchange rate is a \<open>rat\<close>. The
  rounding of IEEE doubles, the two infinities and the sign of zero are outside this
  model; the one place where the code can leave the finite numbers, the division by the
  exchange rate, is written out (\<open>divide_js\<close> below).

  \<^verbatim>\<open>parseInt\<close> and \<open>parseFloat\<close> are builtins. Their result is an input of the
  model: \<open>Some v\<close> for the number \<open>v\<close>, \<open>None\<close> for \<open>NaN\<close>. The source applies
  \<^verbatim>\<open>|| d\<close> to that result; \<open>NaN\<close> and \<open>0\<close> are the falsy numbers, every other
  number (a negative one too) is truthy and is kept.
\<close>

definition orDefault :: "'a::zero option \<Rightarrow> 'a \<Rightarrow> 'a" where
  "orDefault parsed d = (case parsed of None \<Rightarrow> d | Some v \<Rightarrow> if v = 0 then d else v)"

text \<open>
  \<^verbatim>\<open>totalPrice / this.exchangeRate\<close>: a division by zero does not raise in
  JavaScript, it yields \<open>Infinity\<close>, \<open>-Infinity\<close> or \<open>NaN\<close>. \<open>None\<close> stands for
  these three results.
\<close>

definition divide_js :: "rat \<Rightarrow> rat \<Rightarrow> rat option" where
  "divide_js a b = (if b = 0 then None else Some (a / b))"

text \<open>
  \<^verbatim>\<open>x.toFixed(2)\<close>, as the number it prints: the multiple of \<open>1/100\<close> nearest to
  \<open>x\<close>, the one of larger magnitude on a tie.
\<close>

definition toFixed2 :: "rat \<Rightarrow> rat" where
  "toFixed2 x =
     (if x < 0 then - (of_int \<lfloor>(- x) * 100 + 1 / 2\<rfloor> / 100)
      else of_int \<lfloor>x * 100 + 1 / 2\<rfloor> / 100)"

section \<open>Data\<close>

text \<open>
  A price tier \<^verbatim>\<open>{min: 1, max: 9, price: 100}\<close>; \<^verbatim>\<open>max: null\<close> is \<open>None\<close>.
\<close>

record tier =
  tier_min :: int
  tier_max :: "int option"
  tier_price :: rat

record packing =
  pk_length :: rat
  pk_width :: rat
  pk_height :: rat

record machine =
  machine_id :: string
  machine_series :: string
  machine_model :: string
  machine_power :: string
  priceTiers :: "tier list"
  packingSize :: packing
  cbm :: rat
  volumeWeight :: rat
  actualWeight :: rat

text \<open>
  Water coolers, accessories and other accessories: \<^verbatim>\<open>{id, name, price}\<close>. The
  \<^verbatim>\<open>name\<close> is a display label outside ASCII that no computation reads; the record
  keeps the two fields the code computes with.
\<close>

record item =
  item_id :: string
  item_price :: rat

text \<open>
  The argument \<^verbatim>\<open>priceTiers\<close> of \<^verbatim>\<open>calculatePriceByTier\<close> is any JavaScript
  value: \<open>NotArray\<close> is a value on which \<^verbatim>\<open>Array.isArray\<close> is false.
\<close>

datatype tiers_arg = NotArray | Arr "tier list"

section \<open>The tier resolver (utils.calculatePriceByTier)\<close>

text \<open>
  The test of the loop and of the inline lookup:
  \<^verbatim>\<open>quantity >= tier.min && (tier.max === null || quantity <= tier.max)\<close>.
\<close>

definition tierMatches :: "int \<Rightarrow> tier \<Rightarrow> bool" where
  "tierMatches q t =
     (tier_min t \<le> q \<and> (case tier_max t of None \<Rightarrow> True | Some hi \<Rightarrow> q \<le> hi))"

text \<open>
  The \<^verbatim>\<open>for (const tier of priceTiers)\<close> loop with its early return; \<open>None\<close> when
  the loop ends without returning.
\<close>

fun scanTiers :: "int \<Rightarrow> tier list \<Rightarrow> rat option" where
  "scanTiers q [] = None"
| "scanTiers q (t # ts) = (if tierMatches q t then Some (tier_price t) else scanTiers q ts)"

text \<open>
  \<open>quantity\<close> is the value of \<^verbatim>\<open>parseInt(quantity)\<close>; line 60 of the source is
  \<^verbatim>\<open>quantity = parseInt(quantity) || 1\<close>. \<open>tiersArg\<close> is the parameter
  \<^verbatim>\<open>priceTiers\<close>.
\<close>

definition calculatePriceByTier :: "int option \<Rightarrow> tiers_arg \<Rightarrow> rat" where
  "calculatePriceByTier quantity tiersArg =
     (case tiersArg of
        NotArray \<Rightarrow> 0
      | Arr ts \<Rightarrow>
          if length ts = 0 then 0
          else
            (let q = orDefault quantity 1 in
             case scanTiers q ts of
               Some p \<Rightarrow> p
             | None \<Rightarrow> tier_price (ts ! (length ts - 1))))"

text \<open>
  The tier tables of the data model: the tiers partition the integers from 1 on, in
  ascending order, without gap or overlap, and the last tier alone is unbounded.
\<close>

fun partitionFrom :: "int \<Rightarrow> tier list \<Rightarrow> bool" where
  "partitionFrom lo [] = False"
| "partitionFrom lo (t # ts) =
     (tier_min t = lo \<and>
      (case tier_max t of
         None \<Rightarrow> ts = []
       | Some hi \<Rightarrow> lo \<le> hi \<and> partitionFrom (hi + 1) ts))"

definition wellFormed :: "tier list \<Rightarrow> bool" where
  "wellFormed ts = partitionFrom 1 ts"

section \<open>The application module (appModule)\<close>

subsection \<open>Default data\<close>

definition tiers3 :: "rat \<Rightarrow> rat \<Rightarrow> rat \<Rightarrow> tier list" where
  "tiers3 p1 p2 p3 =
     [\<lparr>tier_min = 1, tier_max = Some 9, tier_price = p1\<rparr>,
      \<lparr>tier_min = 10, tier_max = Some 99, tier_price = p2\<rparr>,
      \<lparr>tier_min = 100, tier_max = None, tier_price = p3\<rparr>]"

definition packing1390 :: packing where
  "packing1390 = \<lparr>pk_length = 150, pk_width = 100, pk_height = 80\<rparr>"

definition packing1610 :: packing where
  "packing1610 = \<lparr>pk_length = 180, pk_width = 120, pk_height = 80\<rparr>"

definition defaultMachines :: "machine list" where
  "defaultMachines =
     [\<lparr>machine_id = ''kh-1390-50w'', machine_series = ''KH-1390'', machine_model = ''1390'',
       machine_power = ''50W'', priceTiers = tiers3 10000 9500 9000,
       packingSize = packing1390, cbm = 12 / 10, volumeWeight = 240, actualWeight = 200\<rparr>,
      \<lparr>machine_id = ''kh-1390-80w'', machine_series = ''KH-1390'', machine_model = ''1390'',
       machine_power = ''80W'', priceTiers = tiers3 12000 11500 11000,
       packingSize = packing1390, cbm = 12 / 10, volumeWeight = 240, actualWeight = 210\<rparr>,
      \<lparr>machine_id = ''kh-1390-100w'', machine_series = ''KH-1390'', machine_model = ''1390'',
       machine_power = ''100W'', priceTiers = tiers3 14000 13500 13000,
       packingSize = packing1390, cbm = 12 / 10, volumeWeight = 240, actualWeight = 220\<rparr>,
      \<lparr>machine_id = ''kh-1610-50w'', machine_series = ''KH-1610'', machine_model = ''1610'',
       machine_power = ''50W'', priceTiers = tiers3 12000 11500 11000,
       packingSize = packing1610, cbm = 1728 / 1000, volumeWeight = 3456 / 10,
       actualWeight = 280\<rparr>,
      \<lparr>machine_id = ''kh-1610-80w'', machine_series = ''KH-1610'', machine_model = ''1610'',
       machine_power = ''80W'', priceTiers = tiers3 14000 13500 13000,
       packingSize = packing1610, cbm = 1728 / 1000, volumeWeight = 3456 / 10,
       actualWeight = 290\<rparr>,
      \<lparr>machine_id = ''kh-1610-100w'', machine_series = ''KH-1610'', machine_model = ''1610'',
       machine_power = ''100W'', priceTiers = tiers3 16000 15500 15000,
       packingSize = packing1610, cbm = 1728 / 1000, volumeWeight = 3456 / 10,
       actualWeight = 300\<rparr>]"

definition defaultWaterCoolers :: "item list" where
  "defaultWaterCoolers =
     [\<lparr>item_id = ''water-cooler-50w'', item_price = 800\<rparr>,
      \<lparr>item_id = ''water-cooler-80w'', item_price = 1000\<rparr>,
      \<lparr>item_id = ''water-cooler-100w'', item_price = 1200\<rparr>]"

definition defaultAccessories :: "item list" where
  "defaultAccessories =
     [\<lparr>item_id = ''accessory-laser-tube'', item_price = 1500\<rparr>,
      \<lparr>item_id = ''accessory-mirror'', item_price = 200\<rparr>,
      \<lparr>item_id = ''accessory-lens'', item_price = 150\<rparr>,
      \<lparr>item_id = ''accessory-power-supply'', item_price = 800\<rparr>]"

definition defaultOtherAccessories :: "item list" where
  "defaultOtherAccessories =
     [\<lparr>item_id = ''other-accessory-chiller'', item_price = 2000\<rparr>,
      \<lparr>item_id = ''other-accessory-exhaust-fan'', item_price = 300\<rparr>,
      \<lparr>item_id = ''other-accessory-air-compressor'', item_price = 1500\<rparr>,
      \<lparr>item_id = ''other-accessory-software'', item_price = 1000\<rparr>,
      \<lparr>item_id = ''other-accessory-training'', item_price = 500\<rparr>,
      \<lparr>item_id = ''other-accessory-warranty'', item_price = 800\<rparr>]"

subsection \<open>State\<close>

text \<open>
  A history entry \<^verbatim>\<open>{id, date, total, details}\<close>. \<open>h_total\<close> is the number that the
  source prints with \<^verbatim>\<open>toFixed(2)\<close> behind the currency sign; \<open>h_details\<close> holds the
  series, the model, the power and the quantity that the source joins into one line.
\<close>

record historyItem =
  h_id :: string
  h_date :: string
  h_total :: rat
  h_details :: "string \<times> string \<times> string \<times> int"

text \<open>
  The fields that \<^verbatim>\<open>initDefaultData\<close> creates on the module. \<open>selectedMachine\<close> is
  \<open>None\<close> for \<^verbatim>\<open>null\<close> and for the \<^verbatim>\<open>undefined\<close> of a failed search;
  \<open>selectedWaterCooler\<close> is \<open>None\<close> for \<^verbatim>\<open>null\<close>, else the id of the radio button.
  The code in hand never looks into a template, so a template is a string here.
\<close>

record appState =
  exchangeRate :: rat
  priceSource :: string
  quantity :: int
  internationalShipping :: rat
  domesticShipping :: rat
  otherFees :: rat
  country :: string
  selectedMachine :: "machine option"
  selectedWaterCooler :: "string option"
  selectedAccessories :: "string list"
  selectedOtherAccessories :: "string list"
  history :: "historyItem list"
  templates :: "string list"

text \<open>
  \<open>stored\<close> and \<open>storedTemplates\<close> are what \<^verbatim>\<open>loadHistory\<close> and
  \<^verbatim>\<open>loadTemplates\<close> read from the local storage (the empty list when the key is
  missing).
\<close>

definition initDefaultData :: "historyItem list \<Rightarrow> string list \<Rightarrow> appState" where
  "initDefaultData stored storedTemplates =
     \<lparr>exchangeRate = 65 / 10, priceSource = ''tier1'', quantity = 1,
      internationalShipping = 0, domesticShipping = 0, otherFees = 0,
      country = ''US'', selectedMachine = None, selectedWaterCooler = None,
      selectedAccessories = [], selectedOtherAccessories = [],
      history = stored, templates = storedTemplates\<rparr>"

subsection \<open>calculatePrice\<close>

datatype error = TypeError

text \<open>
  The object handed to \<^verbatim>\<open>updatePriceDetails\<close>, and with it the two numbers handed
  to \<^verbatim>\<open>updatePriceDisplay\<close>; \<open>totalPrice\<close> is also the value returned.
\<close>

record priceDetails =
  machinePrice :: rat
  waterCoolerPrice :: rat
  accessoriesPrice :: rat
  otherAccessoriesPrice :: rat
  d_internationalShipping :: rat
  d_domesticShipping :: rat
  d_otherFees :: rat
  d_quantity :: int
  total :: rat

record priceResult =
  totalPrice :: rat
  usdPrice :: "rat option"
  details :: priceDetails

text \<open>
  \<^verbatim>\<open>priceTiers[0].price\<close>: on an empty array \<^verbatim>\<open>priceTiers[0]\<close> is undefined and
  reading its \<^verbatim>\<open>price\<close> throws a TypeError.
\<close>

definition firstTierPrice :: "tier list \<Rightarrow> error + rat" where
  "firstTierPrice ts = (case ts of [] \<Rightarrow> Inl TypeError | t # _ \<Rightarrow> Inr (tier_price t))"

text \<open>
  The inline lookup of lines 574 to 576:
  \<^verbatim>\<open>priceTiers.find(tier => ...)?.price || priceTiers[0].price\<close>. The right operand is
  taken when no tier is found and also when the price found is 0.
\<close>

definition tierLookup :: "int \<Rightarrow> tier list \<Rightarrow> error + rat" where
  "tierLookup q ts =
     (case map_option tier_price (find (tierMatches q) ts) of
        None \<Rightarrow> firstTierPrice ts
      | Some p \<Rightarrow> if p = 0 then firstTierPrice ts else Inr p)"

text \<open>
  The two \<^verbatim>\<open>forEach\<close> loops over the selected ids: \<open>acc\<close> is the running
  \<^verbatim>\<open>accessoriesPrice\<close>, an id that \<^verbatim>\<open>find\<close> does not meet adds nothing.
\<close>

fun addSelected :: "item list \<Rightarrow> rat \<Rightarrow> string list \<Rightarrow> rat" where
  "addSelected items acc [] = acc"
| "addSelected items acc (accessoryId # rest) =
     addSelected items
       (case find (\<lambda>a. item_id a = accessoryId) items of
          None \<Rightarrow> acc
        | Some accessory \<Rightarrow> acc + item_price accessory)
       rest"

definition calculateMachinePrice :: "appState \<Rightarrow> error + rat" where
  "calculateMachinePrice s =
     (case selectedMachine s of
        None \<Rightarrow> Inr 0
      | Some m \<Rightarrow>
          (case tierLookup (quantity s) (priceTiers m) of
             Inl e \<Rightarrow> Inl e
           | Inr price \<Rightarrow> Inr (price * of_int (quantity s))))"

definition calculateWaterCoolerPrice :: "appState \<Rightarrow> rat" where
  "calculateWaterCoolerPrice s =
     (case selectedWaterCooler s of
        None \<Rightarrow> 0
      | Some wid \<Rightarrow>
          if wid = [] then 0
          else
            (case find (\<lambda>wc. item_id wc = wid) defaultWaterCoolers of
               None \<Rightarrow> 0
             | Some waterCooler \<Rightarrow> item_price waterCooler * of_int (quantity s)))"

definition calculatePrice :: "appState \<Rightarrow> error + priceResult" where
  "calculatePrice s =
     (case calculateMachinePrice s of
        Inl e \<Rightarrow> Inl e
      | Inr machinePrice' \<Rightarrow>
          (let waterCoolerPrice' = calculateWaterCoolerPrice s;
               accessoriesPrice' = addSelected defaultAccessories 0 (selectedAccessories s);
               otherAccessoriesPrice' =
                 addSelected defaultOtherAccessories 0 (selectedOtherAccessories s);
               totalPrice' =
                 machinePrice' + waterCoolerPrice' + accessoriesPrice' + otherAccessoriesPrice'
                 + internationalShipping s + domesticShipping s + otherFees s;
               usdPrice' = divide_js totalPrice' (exchangeRate s)
           in Inr \<lparr>totalPrice = totalPrice', usdPrice = usdPrice',
                   details =
                     \<lparr>machinePrice = machinePrice', waterCoolerPrice = waterCoolerPrice',
                      accessoriesPrice = accessoriesPrice',
                      otherAccessoriesPrice = otherAccessoriesPrice',
                      d_internationalShipping = internationalShipping s,
                      d_domesticShipping = domesticShipping s,
                      d_otherFees = otherFees s, d_quantity = quantity s,
                      total = totalPrice'\<rparr>\<rparr>))"

subsection \<open>Event handlers\<close>

text \<open>
  \<^verbatim>\<open>selectMachine(power)\<close>; \<open>series\<close> and \<open>model\<close> are the values of the two
  select boxes, \<open>power'\<close> is the parameter \<^verbatim>\<open>power\<close>. The empty string is falsy.
\<close>

definition selectMachine :: "string \<Rightarrow> string \<Rightarrow> string \<Rightarrow> appState \<Rightarrow> appState" where
  "selectMachine series model power' s =
     (if series \<noteq> [] \<and> model \<noteq> [] \<and> power' \<noteq> [] then
        s\<lparr>selectedMachine :=
            find (\<lambda>m. machine_series m = series \<and> machine_model m = model
                       \<and> machine_power m = power') defaultMachines\<rparr>
      else s)"

text \<open>
  \<^verbatim>\<open>addHistory\<close>; \<open>newId\<close> and \<open>now\<close> are the results of
  \<^verbatim>\<open>generateUniqueId()\<close> and of \<^verbatim>\<open>formatDateTime(new Date())\<close>. Without a selected
  machine the function returns at once; an exception of \<^verbatim>\<open>calculatePrice\<close> leaves
  before \<^verbatim>\<open>unshift\<close>.
\<close>

definition addHistory :: "string \<Rightarrow> string \<Rightarrow> appState \<Rightarrow> error + appState" where
  "addHistory newId now s =
     (case selectedMachine s of
        None \<Rightarrow> Inr s
      | Some m \<Rightarrow>
          (case calculatePrice s of
             Inl e \<Rightarrow> Inl e
           | Inr r \<Rightarrow>
               (let historyItem' =
                      \<lparr>h_id = newId, h_date = now, h_total = totalPrice r,
                       h_details =
                         (machine_series m, machine_model m, machine_power m, quantity s)\<rparr>
                in Inr (s\<lparr>history := historyItem' # history s\<rparr>))))"

text \<open>
  The events that the listeners of \<^verbatim>\<open>initEventListeners\<close> handle. An input event
  carries the result of \<^verbatim>\<open>parseFloat\<close> or \<^verbatim>\<open>parseInt\<close> on the text of the field;
  \<open>PowerChange\<close> carries the series, the model and the power. \<open>AddHistory\<close> is a call
  of \<^verbatim>\<open>addHistory\<close>.
\<close>

datatype event =
    ExchangeRateInput "rat option"
  | QuantityInput "int option"
  | InternationalShippingInput "rat option"
  | DomesticShippingInput "rat option"
  | OtherFeesInput "rat option"
  | CountryChange string
  | SeriesChange string
  | ModelChange string
  | PowerChange string string string
  | WaterCoolerChange string
  | AccessoryChange "string list"
  | OtherAccessoryChange "string list"
  | ClearHistory
  | AddHistory string string

text \<open>
  Each listener assigns first and then calls \<^verbatim>\<open>calculatePrice\<close>, which changes no
  field: the state after the listener is the state after the assignment.
\<close>

fun handleEvent :: "event \<Rightarrow> appState \<Rightarrow> appState" where
  "handleEvent (ExchangeRateInput parsed) s = s\<lparr>exchangeRate := orDefault parsed (65 / 10)\<rparr>"
| "handleEvent (QuantityInput parsed) s = s\<lparr>quantity := orDefault parsed 1\<rparr>"
| "handleEvent (InternationalShippingInput parsed) s =
     s\<lparr>internationalShipping := orDefault parsed 0\<rparr>"
| "handleEvent (DomesticShippingInput parsed) s = s\<lparr>domesticShipping := orDefault parsed 0\<rparr>"
| "handleEvent (OtherFeesInput parsed) s = s\<lparr>otherFees := orDefault parsed 0\<rparr>"
| "handleEvent (CountryChange c) s = s\<lparr>country := c\<rparr>"
| "handleEvent (SeriesChange series) s = s\<lparr>selectedMachine := None\<rparr>"
| "handleEvent (ModelChange model) s = s\<lparr>selectedMachine := None\<rparr>"
| "handleEvent (PowerChange series model power') s = selectMachine series model power' s"
| "handleEvent (WaterCoolerChange v) s = s\<lparr>selectedWaterCooler := Some v\<rparr>"
| "handleEvent (AccessoryChange checked) s = s\<lparr>selectedAccessories := checked\<rparr>"
| "handleEvent (OtherAccessoryChange checked) s = s\<lparr>selectedOtherAccessories := checked\<rparr>"
| "handleEvent ClearHistory s = s\<lparr>history := []\<rparr>"
| "handleEvent (AddHistory newId now) s =
     (case addHistory newId now s of Inl e \<Rightarrow> s | Inr s' \<Rightarrow> s')"

text \<open>The state after \<^verbatim>\<open>init\<close> and a sequence of events.\<close>

fun run :: "event list \<Rightarrow> appState \<Rightarrow> appState" where
  "run [] s = s"
| "run (e # es) s = run es (handleEvent e s)"

text \<open>
  The items that a list of selected ids stands for, in the order of the ids: the first
  item of the table with that id, nothing for an id the table does not have.
\<close>

definition selectedItems :: "item list \<Rightarrow> string list \<Rightarrow> item list" where
  "selectedItems items ids = List.map_filter (\<lambda>i. find (\<lambda>a. item_id a = i) items) ids"

text \<open>
  What holds of the state after \<^verbatim>\<open>init\<close> and after every event: the exchange rate
  and the quantity are not 0, and a selected machine has a tier to fall back on.
\<close>

definition reachable_inv :: "appState \<Rightarrow> bool" where
  "reachable_inv s =
     (exchangeRate s \<noteq> 0 \<and> quantity s \<noteq> 0 \<and>
      (case selectedMachine s of None \<Rightarrow> True | Some m \<Rightarrow> priceTiers m \<noteq> []))"

subsection \<open>A worked quotation\<close>

text \<open>
  Twelve KH-1390 machines of 50W with their water cooler, two accessories, one other
  accessory, shipping of 200 and 100 and other fees of 50, at the default rate.
\<close>

definition scenarioEvents :: "event list" where
  "scenarioEvents =
     [PowerChange ''KH-1390'' ''1390'' ''50W'', QuantityInput (Some 12),
      WaterCoolerChange ''water-cooler-50w'',
      AccessoryChange [''accessory-laser-tube'', ''accessory-mirror''],
      OtherAccessoryChange [''other-accessory-software''],
      InternationalShippingInput (Some 200), DomesticShippingInput (Some 100),
      OtherFeesInput (Some 50)]"

definition scenarioState :: appState where
  "scenarioState = run scenarioEvents (initDefaultData [] [])"

definition scenarioResult :: priceResult where
  "scenarioResult =
     \<lparr>totalPrice = 126650, usdPrice = Some (253300 / 13),
      details =
        \<lparr>machinePrice = 114000, waterCoolerPrice = 9600, accessoriesPrice = 1700,
         otherAccessoriesPrice = 1000, d_internationalShipping = 200,
         d_domesticShipping = 100, d_otherFees = 50, d_quantity = 12, total = 126650\<rparr>\<rparr>"

text \<open>The history entry that \<open>addHistory\<close> builds for this quotation.\<close>

definition scenarioEntry :: "string \<Rightarrow> string \<Rightarrow> historyItem" where
  "scenarioEntry newId now =
     \<lparr>h_id = newId, h_date = now, h_total = 126650,
      h_details = (''KH-1390'', ''1390'', ''50W'', 12)\<rparr>"

section \<open>Properties of the tier resolver\<close>

lemma scanTiers_find:
  "scanTiers q ts = map_option tier_price (find (tierMatches q) ts)"
  by (induction ts) simp_all

lemma scanTiers_no_match:
  "(\<forall>t \<in> set ts. \<not> tierMatches q t) \<Longrightarrow> scanTiers q ts = None"
  by (induction ts) simp_all

lemma partitionFrom_find:
  "partitionFrom lo ts \<Longrightarrow> t \<in> set ts \<Longrightarrow> tierMatches q t \<Longrightarrow>
     lo \<le> q \<and> find (tierMatches q) ts = Some t"
proof (induction ts arbitrary: lo)
  case Nil
  then show ?case by simp
next
  case (Cons a ts)
  show ?case
  proof (cases "t = a")
    case True
    with Cons.prems show ?thesis by (simp add: tierMatches_def)
  next
    case False
    with Cons.prems have mem: "t \<in> set ts" by simp
    then have ne: "ts \<noteq> []" by auto
    from Cons.prems(1) ne obtain hi where
      hi: "tier_max a = Some hi" "lo \<le> hi" "partitionFrom (hi + 1) ts" "tier_min a = lo"
      by (auto split: option.splits)
    from Cons.IH [OF hi(3) mem Cons.prems(3)]
    have ih: "hi + 1 \<le> q" "find (tierMatches q) ts = Some t" by simp_all
    from ih(1) hi(1) have "\<not> tierMatches q a" by (simp add: tierMatches_def)
    with ih hi(2) show ?thesis by simp
  qed
qed

lemma partitionFrom_covers:
  "partitionFrom lo ts \<Longrightarrow> lo \<le> q \<Longrightarrow> \<exists>t \<in> set ts. tierMatches q t"
proof (induction ts arbitrary: lo)
  case Nil
  then show ?case by simp
next
  case (Cons a ts)
  show ?case
  proof (cases "tierMatches q a")
    case True
    then show ?thesis by simp
  next
    case False
    with Cons.prems obtain hi where
      hi: "tier_max a = Some hi" "partitionFrom (hi + 1) ts" "hi + 1 \<le> q"
      by (auto simp: tierMatches_def split: option.splits)
    from Cons.IH [OF hi(2,3)] show ?thesis by auto
  qed
qed

text \<open>
  C10. Whatever the quantity, \<open>calculatePriceByTier\<close> returns 0 when the tier list
  argument is not an array and when it is the empty array.
\<close>

theorem calculatePriceByTier_no_tiers:
  "calculatePriceByTier parsed NotArray = 0 \<and> calculatePriceByTier parsed (Arr []) = 0"
  by (simp add: calculatePriceByTier_def)

theorem calculatePriceByTier_no_tiers_witness:
  "calculatePriceByTier (Some 5) NotArray = 0 \<and> calculatePriceByTier None (Arr []) = 0"
  using calculatePriceByTier_no_tiers [of "Some 5"] calculatePriceByTier_no_tiers [of None]
  by simp

text \<open>
  C1. For a non-empty tier list in which no tier matches the quantity (the quantity as
  line 60 coerces it), \<open>calculatePriceByTier\<close> returns the price of the last tier.
\<close>

theorem calculatePriceByTier_fallback_last:
  assumes "ts \<noteq> []"
    and "\<forall>t \<in> set ts. \<not> tierMatches (orDefault parsed 1) t"
  shows "calculatePriceByTier parsed (Arr ts) = tier_price (last ts)"
proof -
  from assms(2) have "scanTiers (orDefault parsed 1) ts = None"
    by (rule scanTiers_no_match)
  moreover from assms(1) have "ts ! (length ts - 1) = last ts"
    by (simp add: last_conv_nth)
  ultimately show ?thesis
    using assms(1) by (simp add: calculatePriceByTier_def)
qed

theorem calculatePriceByTier_fallback_last_witness:
  "calculatePriceByTier (Some 5)
     (Arr [\<lparr>tier_min = 10, tier_max = Some 20, tier_price = 100\<rparr>,
           \<lparr>tier_min = 21, tier_max = None, tier_price = 90\<rparr>]) = 90"
  using calculatePriceByTier_fallback_last
    [of "[\<lparr>tier_min = 10, tier_max = Some 20, tier_price = 100\<rparr>,
          \<lparr>tier_min = 21, tier_max = None, tier_price = 90\<rparr>]" "Some 5"]
  by (simp add: orDefault_def tierMatches_def)

text \<open>
  C4. In a well-formed tier table, for a tier of the table and a quantity in the range
  of that tier, \<open>calculatePriceByTier\<close> returns the unit price of that tier, and that
  tier is the first one in list order whose test succeeds.
\<close>

theorem calculatePriceByTier_tier_price:
  assumes "wellFormed ts" and "t \<in> set ts" and "tierMatches q t"
  shows "calculatePriceByTier (Some q) (Arr ts) = tier_price t
         \<and> find (tierMatches q) ts = Some t"
proof -
  from assms have f: "1 \<le> q" "find (tierMatches q) ts = Some t"
    using partitionFrom_find [of 1 ts t q] by (simp_all add: wellFormed_def)
  from f(1) have q: "orDefault (Some q) 1 = q" by (simp add: orDefault_def)
  from assms(2) have "ts \<noteq> []" by auto
  with f(2) q show ?thesis
    by (simp add: calculatePriceByTier_def scanTiers_find)
qed

theorem calculatePriceByTier_tier_price_witness:
  "calculatePriceByTier (Some 50)
     (Arr [\<lparr>tier_min = 1, tier_max = Some 9, tier_price = 10000\<rparr>,
           \<lparr>tier_min = 10, tier_max = Some 99, tier_price = 9500\<rparr>,
           \<lparr>tier_min = 100, tier_max = None, tier_price = 9000\<rparr>]) = 9500"
  using calculatePriceByTier_tier_price
    [of "[\<lparr>tier_min = 1, tier_max = Some 9, tier_price = 10000\<rparr>,
          \<lparr>tier_min = 10, tier_max = Some 99, tier_price = 9500\<rparr>,
          \<lparr>tier_min = 100, tier_max = None, tier_price = 9000\<rparr>]"
        "\<lparr>tier_min = 10, tier_max = Some 99, tier_price = 9500\<rparr>" 50]
  by (simp add: wellFormed_def tierMatches_def)

section \<open>The two tier lookups\<close>

text \<open>
  The lookup inside \<open>calculatePrice\<close> and \<open>calculatePriceByTier\<close> agree whenever a
  tier with a price other than 0 matches a quantity other than 0; so they agree on a
  well-formed table without a price of 0 for every quantity from 1 on, and the tables of
  the default machines are such tables.
\<close>

lemma tierLookup_agrees_on_match:
  assumes "find (tierMatches q) ts = Some t" and "tier_price t \<noteq> 0" and "q \<noteq> 0"
  shows "tierLookup q ts = Inr (calculatePriceByTier (Some q) (Arr ts))"
proof -
  from assms(1) have "ts \<noteq> []" by auto
  with assms show ?thesis
    by (simp add: tierLookup_def calculatePriceByTier_def scanTiers_find orDefault_def)
qed

lemma tierLookup_agrees_wellFormed:
  assumes "wellFormed ts" and "\<forall>t \<in> set ts. tier_price t \<noteq> 0" and "1 \<le> q"
  shows "tierLookup q ts = Inr (calculatePriceByTier (Some q) (Arr ts))"
proof -
  from assms(1,3) obtain t where t: "t \<in> set ts" "tierMatches q t"
    using partitionFrom_covers [of 1 ts q] by (auto simp: wellFormed_def)
  with assms(1) have "find (tierMatches q) ts = Some t"
    using partitionFrom_find [of 1 ts t q] by (simp add: wellFormed_def)
  moreover from assms(2) t(1) have "tier_price t \<noteq> 0" by blast
  moreover from assms(3) have "q \<noteq> 0" by simp
  ultimately show ?thesis by (rule tierLookup_agrees_on_match)
qed

lemma wellFormed_tiers3: "wellFormed (tiers3 p1 p2 p3)"
  by (simp add: wellFormed_def tiers3_def)

lemma defaultMachines_tiers:
  assumes "m \<in> set defaultMachines"
  shows "wellFormed (priceTiers m) \<and> (\<forall>t \<in> set (priceTiers m). tier_price t \<noteq> 0)"
proof -
  from assms consider
      "priceTiers m = tiers3 10000 9500 9000" | "priceTiers m = tiers3 12000 11500 11000"
    | "priceTiers m = tiers3 14000 13500 13000" | "priceTiers m = tiers3 16000 15500 15000"
    by (auto simp: defaultMachines_def)
  then show ?thesis
    by cases (simp_all add: wellFormed_tiers3, simp_all add: tiers3_def)
qed

text \<open>
  C9. The two lookups do not return the same unit price for every quantity and every
  non-empty tier list. For the quantity -5 and the tiers of the KH-1390 50W machine, and
  for the quantity 5 and a table that starts at 10, no tier matches:
  \<open>calculatePriceByTier\<close> returns the price of the last tier, the lookup of
  \<open>calculatePrice\<close> the price of the first. For a matching tier of price 0,
  \<open>calculatePriceByTier\<close> returns 0 and the lookup of \<open>calculatePrice\<close> the price of the
  first tier.
\<close>

theorem tierLookup_differs_from_calculatePriceByTier:
  "calculatePriceByTier (Some (- 5)) (Arr (tiers3 10000 9500 9000)) = 9000
   \<and> tierLookup (- 5) (tiers3 10000 9500 9000) = Inr 10000
   \<and> calculatePriceByTier (Some 5)
        (Arr [\<lparr>tier_min = 10, tier_max = Some 20, tier_price = 100\<rparr>,
              \<lparr>tier_min = 21, tier_max = None, tier_price = 90\<rparr>]) = 90
   \<and> tierLookup 5
        [\<lparr>tier_min = 10, tier_max = Some 20, tier_price = 100\<rparr>,
         \<lparr>tier_min = 21, tier_max = None, tier_price = 90\<rparr>] = Inr 100
   \<and> calculatePriceByTier (Some 10)
        (Arr [\<lparr>tier_min = 1, tier_max = Some 9, tier_price = 100\<rparr>,
              \<lparr>tier_min = 10, tier_max = None, tier_price = 0\<rparr>]) = 0
   \<and> tierLookup 10
        [\<lparr>tier_min = 1, tier_max = Some 9, tier_price = 100\<rparr>,
         \<lparr>tier_min = 10, tier_max = None, tier_price = 0\<rparr>] = Inr 100"
  by (simp add: calculatePriceByTier_def tierLookup_def firstTierPrice_def tiers3_def
      tierMatches_def orDefault_def)

section \<open>Properties of the application module\<close>

lemma scenario_state:
  "scenarioState =
     \<lparr>exchangeRate = 65 / 10, priceSource = ''tier1'', quantity = 12,
      internationalShipping = 200, domesticShipping = 100, otherFees = 50,
      country = ''US'', selectedMachine = Some (hd defaultMachines),
      selectedWaterCooler = Some ''water-cooler-50w'',
      selectedAccessories = [''accessory-laser-tube'', ''accessory-mirror''],
      selectedOtherAccessories = [''other-accessory-software''],
      history = [], templates = []\<rparr>"
  by (simp add: scenarioState_def scenarioEvents_def initDefaultData_def selectMachine_def
      defaultMachines_def orDefault_def)

lemma scenario_calculatePrice: "calculatePrice scenarioState = Inr scenarioResult"
  by (simp add: scenario_state calculatePrice_def calculateMachinePrice_def
      calculateWaterCoolerPrice_def tierLookup_def tierMatches_def firstTierPrice_def
      defaultMachines_def tiers3_def defaultWaterCoolers_def defaultAccessories_def
      defaultOtherAccessories_def divide_js_def scenarioResult_def)

lemma round_hundredth:
  fixes y :: rat
  shows "\<bar>of_int \<lfloor>y * 100 + 1 / 2\<rfloor> / 100 - y\<bar> \<le> 1 / 200"
proof -
  define n :: rat where "n = of_int \<lfloor>y * 100 + 1 / 2\<rfloor>"
  have "n \<le> y * 100 + 1 / 2" "y * 100 + 1 / 2 < n + 1"
    unfolding n_def by linarith+
  then have "\<bar>n / 100 - y\<bar> \<le> 1 / 200" by linarith
  then show ?thesis by (simp add: n_def)
qed

lemma toFixed2_close: "\<bar>toFixed2 x - x\<bar> \<le> 1 / 200"
proof (cases "x < 0")
  case True
  have "\<bar>toFixed2 x - x\<bar> = \<bar>of_int \<lfloor>(- x) * 100 + 1 / 2\<rfloor> / 100 - (- x)\<bar>"
    using True by (simp add: toFixed2_def abs_minus_commute [of _ "- x"])
  then show ?thesis using round_hundredth [of "- x"] by simp
next
  case False
  then show ?thesis using round_hundredth [of x] by (simp add: toFixed2_def)
qed

lemma addSelected_sum:
  "addSelected items acc ids = acc + sum_list (map item_price (selectedItems items ids))"
  by (induction ids arbitrary: acc)
     (simp_all add: selectedItems_def map_filter_simps split: option.splits)

lemma find_defaultMachines: "find P defaultMachines = Some m \<Longrightarrow> priceTiers m \<noteq> []"
  by (auto simp: defaultMachines_def tiers3_def split: if_splits)

lemma orDefault_nonzero: "d \<noteq> 0 \<Longrightarrow> orDefault p d \<noteq> 0"
  by (simp add: orDefault_def split: option.splits)

lemma inv_init: "reachable_inv (initDefaultData h t)"
  by (simp add: reachable_inv_def initDefaultData_def)

lemma inv_addHistory: "reachable_inv s \<Longrightarrow> addHistory i d s = Inr s' \<Longrightarrow> reachable_inv s'"
  by (auto simp: reachable_inv_def addHistory_def Let_def split: option.splits sum.splits)

lemma inv_step: "reachable_inv s \<Longrightarrow> reachable_inv (handleEvent e s)"
proof (cases e)
  case (PowerChange a b c)
  assume "reachable_inv s"
  then show ?thesis using PowerChange
    by (auto simp: reachable_inv_def selectMachine_def split: option.splits
        dest: find_defaultMachines)
next
  case (AddHistory i d)
  assume "reachable_inv s"
  then show ?thesis using AddHistory inv_addHistory [of s i d]
    by (simp split: sum.splits)
qed (simp_all add: reachable_inv_def orDefault_nonzero)

lemma inv_run: "reachable_inv s \<Longrightarrow> reachable_inv (run es s)"
  by (induction es arbitrary: s) (simp_all add: inv_step)

lemma tierLookup_returns: "ts \<noteq> [] \<Longrightarrow> \<exists>p. tierLookup q ts = Inr p"
  by (cases ts) (simp_all add: tierLookup_def firstTierPrice_def split: option.splits)

lemma inv_calculatePrice:
  assumes "reachable_inv s"
  shows "\<exists>r. calculatePrice s = Inr r \<and> usdPrice r = Some (totalPrice r / exchangeRate s)"
proof -
  have "\<exists>p. calculateMachinePrice s = Inr p"
  proof (cases "selectedMachine s")
    case None
    then show ?thesis by (simp add: calculateMachinePrice_def)
  next
    case (Some m)
    with assms have "priceTiers m \<noteq> []" by (simp add: reachable_inv_def)
    from tierLookup_returns [OF this, of "quantity s"] Some show ?thesis
      by (auto simp: calculateMachinePrice_def)
  qed
  moreover from assms have "exchangeRate s \<noteq> 0" by (simp add: reachable_inv_def)
  ultimately show ?thesis
    by (auto simp: calculatePrice_def Let_def divide_js_def)
qed

text \<open>
  The scenario of the specification: one machine at 10000, a water cooler at 800, one
  accessory at 1500, shipping of 200 and 100, other fees of 50 and an exchange rate
  entered as 0. The total is 12650 and the foreign total is displayed as 1946.15.
\<close>

lemma spec_scenario:
  "map_sum id (\<lambda>r. (machinePrice (details r), waterCoolerPrice (details r),
       accessoriesPrice (details r), totalPrice r, map_option toFixed2 (usdPrice r)))
     (calculatePrice
        (run [PowerChange ''KH-1390'' ''1390'' ''50W'', QuantityInput (Some 1),
              WaterCoolerChange ''water-cooler-50w'', AccessoryChange [''accessory-laser-tube''],
              InternationalShippingInput (Some 200), DomesticShippingInput (Some 100),
              OtherFeesInput (Some 50), ExchangeRateInput (Some 0)]
           (initDefaultData [] [])))
   = Inr (10000, 800, 1500, 12650, Some (194615 / 100))"
  by (simp add: initDefaultData_def selectMachine_def orDefault_def
      defaultMachines_def calculatePrice_def calculateMachinePrice_def
      calculateWaterCoolerPrice_def tierLookup_def tierMatches_def firstTierPrice_def
      tiers3_def defaultWaterCoolers_def defaultAccessories_def
      defaultOtherAccessories_def divide_js_def toFixed2_def floor_eq_iff)

text \<open>
  C2. Whenever \<open>calculatePrice\<close> returns, the total in local currency is the sum of
  the machine price, the water cooler price, the accessories price, the other
  accessories price, the shipping (international plus domestic) and the other fees, and
  nothing else; the total of the details object is the same number.
\<close>

theorem calculatePrice_total_is_sum:
  assumes "calculatePrice s = Inr r"
  shows "totalPrice r =
           machinePrice (details r) + waterCoolerPrice (details r)
           + accessoriesPrice (details r) + otherAccessoriesPrice (details r)
           + (internationalShipping s + domesticShipping s) + otherFees s
         \<and> total (details r) = totalPrice r
         \<and> d_internationalShipping (details r) = internationalShipping s
         \<and> d_domesticShipping (details r) = domesticShipping s
         \<and> d_otherFees (details r) = otherFees s"
  using assms by (auto simp: calculatePrice_def Let_def split: sum.splits)

theorem calculatePrice_total_is_sum_witness:
  "calculatePrice scenarioState = Inr scenarioResult
   \<and> totalPrice scenarioResult = 114000 + 9600 + 1700 + 1000 + (200 + 100) + 50"
  using calculatePrice_total_is_sum [OF scenario_calculatePrice]
  by (simp add: scenario_calculatePrice scenarioResult_def)

lemma find_defaultWaterCoolers_empty:
  "find (\<lambda>wc. item_id wc = []) defaultWaterCoolers = None"
  by (simp add: defaultWaterCoolers_def)

text \<open>
  C3. Whenever \<open>calculatePrice\<close> returns: the machine price is 0 without a selected
  machine, else the unit price that the tier lookup of \<open>calculatePrice\<close> resolves times
  the quantity, which for a default machine and a quantity from 1 on is the unit price
  of \<open>calculatePriceByTier\<close> times the quantity; the water cooler price is 0 without a selected water cooler, else the
  flat price of the water cooler with the selected id times the quantity (0 when the
  table has no such id); the accessories price and the other accessories price are the
  plain sums of the flat prices of the selected items, and they stay the same when the
  quantity changes.
\<close>

theorem calculatePrice_components:
  assumes "calculatePrice s = Inr r"
  shows "(selectedMachine s = None \<longrightarrow> machinePrice (details r) = 0)
         \<and> (\<forall>m. selectedMachine s = Some m \<longrightarrow>
               (\<exists>price. tierLookup (quantity s) (priceTiers m) = Inr price
                  \<and> machinePrice (details r) = price * of_int (quantity s)))
         \<and> (\<forall>m. selectedMachine s = Some m \<and> m \<in> set defaultMachines \<and> 1 \<le> quantity s
               \<longrightarrow> machinePrice (details r) =
                     calculatePriceByTier (Some (quantity s)) (Arr (priceTiers m))
                     * of_int (quantity s))
         \<and> (selectedWaterCooler s = None \<longrightarrow> waterCoolerPrice (details r) = 0)
         \<and> (\<forall>wid. selectedWaterCooler s = Some wid \<longrightarrow>
               waterCoolerPrice (details r) =
                 (case find (\<lambda>wc. item_id wc = wid) defaultWaterCoolers of
                    None \<Rightarrow> 0
                  | Some wc \<Rightarrow> item_price wc * of_int (quantity s)))
         \<and> accessoriesPrice (details r) =
               sum_list (map item_price (selectedItems defaultAccessories (selectedAccessories s)))
         \<and> otherAccessoriesPrice (details r) =
               sum_list (map item_price
                 (selectedItems defaultOtherAccessories (selectedOtherAccessories s)))
         \<and> (\<forall>q r'. calculatePrice (s\<lparr>quantity := q\<rparr>) = Inr r' \<longrightarrow>
               accessoriesPrice (details r') = accessoriesPrice (details r)
               \<and> otherAccessoriesPrice (details r') = otherAccessoriesPrice (details r))"
proof -
  from assms obtain mp where mp: "calculateMachinePrice s = Inr mp"
    by (auto simp: calculatePrice_def split: sum.splits)
  with assms have r: "machinePrice (details r) = mp"
    "waterCoolerPrice (details r) = calculateWaterCoolerPrice s"
    "accessoriesPrice (details r) = addSelected defaultAccessories 0 (selectedAccessories s)"
    "otherAccessoriesPrice (details r) =
       addSelected defaultOtherAccessories 0 (selectedOtherAccessories s)"
    by (auto simp: calculatePrice_def Let_def)
  have machine: "(selectedMachine s = None \<longrightarrow> mp = 0)
     \<and> (\<forall>m. selectedMachine s = Some m \<longrightarrow>
           (\<exists>price. tierLookup (quantity s) (priceTiers m) = Inr price
              \<and> mp = price * of_int (quantity s)))"
    using mp by (auto simp: calculateMachinePrice_def split: option.splits sum.splits)
  have resolver: "mp = calculatePriceByTier (Some (quantity s)) (Arr (priceTiers m))
                     * of_int (quantity s)"
    if "selectedMachine s = Some m" "m \<in> set defaultMachines" "1 \<le> quantity s" for m
  proof -
    from defaultMachines_tiers [OF that(2)] that(3)
    have "tierLookup (quantity s) (priceTiers m)
        = Inr (calculatePriceByTier (Some (quantity s)) (Arr (priceTiers m)))"
      by (intro tierLookup_agrees_wellFormed) simp_all
    with machine that(1) show ?thesis by auto
  qed
  have cooler: "(selectedWaterCooler s = None \<longrightarrow> calculateWaterCoolerPrice s = 0)
     \<and> (\<forall>wid. selectedWaterCooler s = Some wid \<longrightarrow>
           calculateWaterCoolerPrice s =
             (case find (\<lambda>wc. item_id wc = wid) defaultWaterCoolers of
                None \<Rightarrow> 0
              | Some wc \<Rightarrow> item_price wc * of_int (quantity s)))"
    by (auto simp: calculateWaterCoolerPrice_def find_defaultWaterCoolers_empty)
  have other: "\<forall>q r'. calculatePrice (s\<lparr>quantity := q\<rparr>) = Inr r' \<longrightarrow>
      accessoriesPrice (details r') = accessoriesPrice (details r)
      \<and> otherAccessoriesPrice (details r') = otherAccessoriesPrice (details r)"
    using r(3,4) by (auto simp: calculatePrice_def Let_def split: sum.splits)
  from machine resolver cooler other r show ?thesis
    by (simp add: addSelected_sum)
qed

theorem calculatePrice_components_witness:
  "calculatePrice scenarioState = Inr scenarioResult
   \<and> tierLookup 12 (tiers3 10000 9500 9000) = Inr 9500
   \<and> calculatePriceByTier (Some 12) (Arr (tiers3 10000 9500 9000)) = 9500
   \<and> machinePrice (details scenarioResult) = 9500 * 12
   \<and> waterCoolerPrice (details scenarioResult) = 800 * 12
   \<and> accessoriesPrice (details scenarioResult) = 1500 + 200
   \<and> otherAccessoriesPrice (details scenarioResult) = 1000"
  using calculatePrice_components [OF scenario_calculatePrice]
  by (simp add: scenario_calculatePrice scenarioResult_def tierLookup_def tiers3_def
      tierMatches_def calculatePriceByTier_def orDefault_def)

subsection \<open>The two totals\<close>

lemma reachable_inv_run_init: "reachable_inv (run es (initDefaultData stored storedTemplates))"
  by (rule inv_run [OF inv_init])

text \<open>
  C7. In every state that the module reaches (\<^verbatim>\<open>init\<close> and then any events),
  \<open>calculatePrice\<close> returns, the total in foreign currency is the total in local
  currency divided by the exchange rate, and multiplied by the exchange rate it gives
  the local total back exactly. The foreign total as \<^verbatim>\<open>toFixed(2)\<close> displays it,
  multiplied by the rate, is within half a hundredth times the rate of the local total.
\<close>

theorem usdPrice_times_exchangeRate:
  "\<exists>r u. calculatePrice (run es (initDefaultData stored storedTemplates)) = Inr r
      \<and> usdPrice r = Some u
      \<and> u = totalPrice r / exchangeRate (run es (initDefaultData stored storedTemplates))
      \<and> u * exchangeRate (run es (initDefaultData stored storedTemplates)) = totalPrice r
      \<and> \<bar>toFixed2 u * exchangeRate (run es (initDefaultData stored storedTemplates))
           - totalPrice r\<bar>
          \<le> \<bar>exchangeRate (run es (initDefaultData stored storedTemplates))\<bar> / 200"
proof -
  define s where "s = run es (initDefaultData stored storedTemplates)"
  have reach: "reachable_inv s"
    unfolding s_def by (rule reachable_inv_run_init)
  then have rate: "exchangeRate s \<noteq> 0" by (simp add: reachable_inv_def)
  from inv_calculatePrice [OF reach] obtain r
    where r: "calculatePrice s = Inr r" "usdPrice r = Some (totalPrice r / exchangeRate s)"
    by blast
  define u where "u = totalPrice r / exchangeRate s"
  from rate have mul: "u * exchangeRate s = totalPrice r" by (simp add: u_def)
  have "toFixed2 u * exchangeRate s - totalPrice r = (toFixed2 u - u) * exchangeRate s"
    using mul by (simp add: algebra_simps)
  then have "\<bar>toFixed2 u * exchangeRate s - totalPrice r\<bar>
      = \<bar>toFixed2 u - u\<bar> * \<bar>exchangeRate s\<bar>"
    by (simp add: abs_mult)
  also have "\<dots> \<le> 1 / 200 * \<bar>exchangeRate s\<bar>"
    by (rule mult_right_mono [OF toFixed2_close]) simp
  finally have shown:
    "\<bar>toFixed2 u * exchangeRate s - totalPrice r\<bar> \<le> \<bar>exchangeRate s\<bar> / 200"
    by simp
  from r(2) have "usdPrice r = Some u" by (simp add: u_def)
  with r(1) u_def mul shown show ?thesis
    unfolding s_def [symmetric] by blast
qed

theorem usdPrice_times_exchangeRate_witness:
  "\<exists>r u. calculatePrice scenarioState = Inr r \<and> usdPrice r = Some u
      \<and> u = totalPrice r / exchangeRate scenarioState
      \<and> u * exchangeRate scenarioState = totalPrice r
      \<and> \<bar>toFixed2 u * exchangeRate scenarioState - totalPrice r\<bar>
          \<le> \<bar>exchangeRate scenarioState\<bar> / 200"
  unfolding scenarioState_def
  by (rule usdPrice_times_exchangeRate [of scenarioEvents "[]" "[]"])

subsection \<open>The exchange rate and the quantity fields\<close>

text \<open>
  The first statement of C5 (a negative exchange rate is replaced by 6.5) fails: the
  parsed value -2 is truthy, it becomes the exchange rate, and the foreign total of one
  KH-1390 machine at 10000 is -5000.
\<close>

theorem exchangeRate_negative_counterexample:
  "exchangeRate (handleEvent (ExchangeRateInput (Some (- 2))) (initDefaultData [] [])) = - 2
   \<and> exchangeRate (handleEvent (ExchangeRateInput (Some (- 2))) (initDefaultData [] []))
       \<noteq> 65 / 10
   \<and> map_sum id usdPrice
        (calculatePrice (run [PowerChange ''KH-1390'' ''1390'' ''50W'',
                              ExchangeRateInput (Some (- 2))] (initDefaultData [] [])))
       = Inr (Some (- 5000))"
  by (simp add: orDefault_def initDefaultData_def selectMachine_def defaultMachines_def
      calculatePrice_def calculateMachinePrice_def calculateWaterCoolerPrice_def
      tierLookup_def tierMatches_def firstTierPrice_def tiers3_def divide_js_def)

text \<open>
  C5, amended. When the text of the exchange rate field parses to 0 or is not a number,
  the exchange rate used is the default 6.5; every other parsed value, a negative one
  too, is used as it is. The exchange rate is therefore never 0, and the foreign total
  of \<open>calculatePrice\<close> is never the result of a division by zero.
\<close>

theorem exchangeRate_input_default:
  "(parsed = None \<or> parsed = Some 0 \<longrightarrow>
      exchangeRate (handleEvent (ExchangeRateInput parsed) s) = 65 / 10)
   \<and> (\<forall>v. parsed = Some v \<and> v \<noteq> 0 \<longrightarrow>
         exchangeRate (handleEvent (ExchangeRateInput parsed) s) = v)
   \<and> exchangeRate (handleEvent (ExchangeRateInput parsed) s) \<noteq> 0
   \<and> (\<forall>r. calculatePrice (handleEvent (ExchangeRateInput parsed) s) = Inr r \<longrightarrow>
         usdPrice r
           = Some (totalPrice r / exchangeRate (handleEvent (ExchangeRateInput parsed) s)))"
proof -
  have rate:
    "exchangeRate (handleEvent (ExchangeRateInput parsed) s) = orDefault parsed (65 / 10)"
    by simp
  have nz: "orDefault parsed (65 / 10 :: rat) \<noteq> 0"
    by (rule orDefault_nonzero) simp
  have "\<forall>r. calculatePrice (handleEvent (ExchangeRateInput parsed) s) = Inr r \<longrightarrow>
         usdPrice r
           = Some (totalPrice r / exchangeRate (handleEvent (ExchangeRateInput parsed) s))"
    using nz unfolding rate
    by (auto simp: calculatePrice_def Let_def divide_js_def split: sum.splits)
  with nz show ?thesis
    unfolding rate by (auto simp: orDefault_def)
qed

theorem exchangeRate_input_default_witness:
  "exchangeRate (handleEvent (ExchangeRateInput (Some 0)) scenarioState) = 65 / 10
   \<and> exchangeRate (handleEvent (ExchangeRateInput None) scenarioState) = 65 / 10
   \<and> exchangeRate (handleEvent (ExchangeRateInput (Some 7)) scenarioState) = 7"
  using exchangeRate_input_default [of "Some 0" scenarioState]
    exchangeRate_input_default [of None scenarioState]
    exchangeRate_input_default [of "Some 7" scenarioState]
  by simp

text \<open>
  The first statement of C6 (the quantity is always at least 1) fails: the parsed value
  -5 is truthy and is kept, by the quantity field and by \<open>calculatePriceByTier\<close>, which
  finds no tier for it and returns the last price where quantity 1 has the first.
\<close>

theorem quantity_negative_counterexample:
  "quantity (handleEvent (QuantityInput (Some (- 5))) (initDefaultData [] [])) = - 5
   \<and> \<not> 1 \<le> quantity (handleEvent (QuantityInput (Some (- 5))) (initDefaultData [] []))
   \<and> calculatePriceByTier (Some (- 5)) (Arr (tiers3 10000 9500 9000)) = 9000
   \<and> calculatePriceByTier (Some 1) (Arr (tiers3 10000 9500 9000)) = 10000"
  by (simp add: orDefault_def calculatePriceByTier_def tiers3_def tierMatches_def)

text \<open>
  C6, amended. The quantity that the calculator and the tier resolver use is
  \<^verbatim>\<open>parseInt(value) || 1\<close>: it is 1 when the value parses to 0 or is not a number, it
  is the parsed integer otherwise (so at least 1 for a parsed integer that is at least
  1, and negative for a negative one), and it is never 0. The tier resolver returns for
  a value what it returns for the quantity coerced in this way.
\<close>

theorem quantity_input_coerced:
  "(parsed = None \<or> parsed = Some 0 \<longrightarrow>
      quantity (handleEvent (QuantityInput parsed) s) = 1)
   \<and> (\<forall>n. parsed = Some n \<and> n \<noteq> 0 \<longrightarrow>
         quantity (handleEvent (QuantityInput parsed) s) = n)
   \<and> (\<forall>n. parsed = Some n \<and> 1 \<le> n \<longrightarrow>
         1 \<le> quantity (handleEvent (QuantityInput parsed) s))
   \<and> quantity (handleEvent (QuantityInput parsed) s) \<noteq> 0
   \<and> calculatePriceByTier parsed tiersArg
       = calculatePriceByTier (Some (quantity (handleEvent (QuantityInput parsed) s))) tiersArg"
proof -
  have q: "quantity (handleEvent (QuantityInput parsed) s) = orDefault parsed 1"
    by simp
  have nz: "orDefault parsed (1 :: int) \<noteq> 0"
    by (rule orDefault_nonzero) simp
  then have idem: "orDefault (Some (orDefault parsed 1)) 1 = orDefault parsed (1 :: int)"
    by (simp add: orDefault_def)
  have "calculatePriceByTier parsed tiersArg
      = calculatePriceByTier (Some (orDefault parsed 1)) tiersArg"
    unfolding calculatePriceByTier_def idem by (rule refl)
  with nz show ?thesis
    unfolding q by (auto simp: orDefault_def)
qed

theorem quantity_input_coerced_witness:
  "quantity (handleEvent (QuantityInput (Some 0)) scenarioState) = 1
   \<and> quantity (handleEvent (QuantityInput None) scenarioState) = 1
   \<and> quantity (handleEvent (QuantityInput (Some 50)) scenarioState) = 50"
  using quantity_input_coerced [of "Some 0" scenarioState]
    quantity_input_coerced [of None scenarioState]
    quantity_input_coerced [of "Some 50" scenarioState]
  by simp

subsection \<open>The history\<close>

lemma calculateMachinePrice_history:
  "calculateMachinePrice (s\<lparr>history := h\<rparr>) = calculateMachinePrice s"
  by (simp add: calculateMachinePrice_def split: option.splits sum.splits)

lemma calculateWaterCoolerPrice_history:
  "calculateWaterCoolerPrice (s\<lparr>history := h\<rparr>) = calculateWaterCoolerPrice s"
  by (simp add: calculateWaterCoolerPrice_def split: option.splits)

lemma calculatePrice_history:
  "calculatePrice (s\<lparr>history := h\<rparr>) = calculatePrice s"
  by (simp add: calculatePrice_def calculateMachinePrice_history
      calculateWaterCoolerPrice_history split: sum.splits)

text \<open>
  C8. When \<open>addHistory\<close> appends (a machine is selected and the total is computed),
  the new entry, with the id and the date it was given and the total just computed, is
  the head of the new history and the old history follows it unchanged, whatever the
  old history is. Nothing is deduplicated: appending the same entry once more leaves two
  copies in front.
\<close>

theorem addHistory_prepends:
  assumes "selectedMachine s = Some m" and "calculatePrice s = Inr r"
  shows "\<exists>e. addHistory newId now s = Inr (s\<lparr>history := e # history s\<rparr>)
           \<and> h_id e = newId \<and> h_date e = now \<and> h_total e = totalPrice r
           \<and> addHistory newId now (s\<lparr>history := e # history s\<rparr>)
               = Inr (s\<lparr>history := e # e # history s\<rparr>)"
proof -
  define e where
    "e = \<lparr>h_id = newId, h_date = now, h_total = totalPrice r,
           h_details = (machine_series m, machine_model m, machine_power m, quantity s)\<rparr>"
  from assms have first: "addHistory newId now s = Inr (s\<lparr>history := e # history s\<rparr>)"
    by (simp add: addHistory_def e_def)
  from assms have "addHistory newId now (s\<lparr>history := e # history s\<rparr>)
      = Inr (s\<lparr>history := e # e # history s\<rparr>)"
    by (simp add: addHistory_def calculatePrice_history e_def)
  with first show ?thesis
    by (intro exI [of _ e]) (simp add: e_def)
qed

theorem addHistory_prepends_witness:
  "history scenarioState = []
   \<and> map_sum id history (addHistory ''a1'' ''2024-01-01'' scenarioState)
       = Inr [scenarioEntry ''a1'' ''2024-01-01'']
   \<and> history (run [AddHistory ''a1'' ''2024-01-01'', AddHistory ''b2'' ''2024-01-02'']
                 scenarioState)
       = [scenarioEntry ''b2'' ''2024-01-02'', scenarioEntry ''a1'' ''2024-01-01'']"
proof -
  have sel: "selectedMachine scenarioState = Some (hd defaultMachines)"
    by (simp add: scenario_state)
  have hist: "history scenarioState = []"
    by (simp add: scenario_state)
  have qty: "quantity scenarioState = 12"
    by (simp add: scenario_state)
  from addHistory_prepends [OF sel scenario_calculatePrice, of "''a1''" "''2024-01-01''"]
  show ?thesis
    by (auto simp add: hist sel qty addHistory_def scenario_calculatePrice
        calculatePrice_history scenarioResult_def scenarioEntry_def defaultMachines_def)
qed

end
